theory Spec2Isabelle
  imports Complex_Main "HOL-Library.Sublist"
begin

section \<open>JavaScript values used by the calculator\<close>

text \<open>
  The calculator of \<^verbatim>\<open>src/index.js\<close> works on JavaScript strings (the tokens), on
  Numbers (the results of arithmetic) and on \<^verbatim>\<open>undefined\<close> (what \<^verbatim>\<open>Array.prototype.pop\<close>
  gives on an empty array).  A Number is modelled on the extended reals: a finite value,
  the two infinities, or NaN.  Rounding to the nearest binary64 value and the sign of
  zero are not modelled; overflow to an infinity is (\<open>to_double\<close>).  Every Number that a
  theorem below computes explicitly is an integer or a binary fraction of small
  magnitude, where binary64 arithmetic is exact.
\<close>

datatype number = Fin real | PosInf | NegInf | NaN

datatype jsval = JString string | JNumber number | JUndefined

text \<open>The exception type declared in lines 8-11 of the source.\<close>

datatype exception = ExpressionFormatException string

text \<open>
  A real result is a finite Number when its magnitude lies below \<open>2^1024 - 2^970\<close>, the
  least magnitude that rounds to an infinity in binary64.
\<close>

definition to_double :: "real \<Rightarrow> number" where
  "to_double v =
     (if 2 ^ 1024 - 2 ^ 970 \<le> v then PosInf
      else if v \<le> - (2 ^ 1024 - 2 ^ 970) then NegInf
      else Fin v)"

subsection \<open>Arithmetic on Numbers\<close>

fun js_neg :: "number \<Rightarrow> number" where
  "js_neg (Fin a) = Fin (- a)"
| "js_neg PosInf = NegInf"
| "js_neg NegInf = PosInf"
| "js_neg NaN = NaN"

text \<open>The infinity with the sign of a real number (zero counts as positive).\<close>

definition signed_inf :: "real \<Rightarrow> number" where
  "signed_inf a = (if a < 0 then NegInf else PosInf)"

fun js_add :: "number \<Rightarrow> number \<Rightarrow> number" where
  "js_add NaN _ = NaN"
| "js_add _ NaN = NaN"
| "js_add (Fin a) (Fin b) = to_double (a + b)"
| "js_add PosInf NegInf = NaN"
| "js_add NegInf PosInf = NaN"
| "js_add PosInf _ = PosInf"
| "js_add NegInf _ = NegInf"
| "js_add (Fin a) PosInf = PosInf"
| "js_add (Fin a) NegInf = NegInf"

definition js_sub :: "number \<Rightarrow> number \<Rightarrow> number" where
  "js_sub x y = js_add x (js_neg y)"

fun js_mul :: "number \<Rightarrow> number \<Rightarrow> number" where
  "js_mul NaN _ = NaN"
| "js_mul _ NaN = NaN"
| "js_mul (Fin a) (Fin b) = to_double (a * b)"
| "js_mul (Fin a) PosInf = (if a = 0 then NaN else signed_inf a)"
| "js_mul (Fin a) NegInf = (if a = 0 then NaN else signed_inf (- a))"
| "js_mul PosInf (Fin b) = (if b = 0 then NaN else signed_inf b)"
| "js_mul NegInf (Fin b) = (if b = 0 then NaN else signed_inf (- b))"
| "js_mul PosInf PosInf = PosInf"
| "js_mul PosInf NegInf = NegInf"
| "js_mul NegInf PosInf = NegInf"
| "js_mul NegInf NegInf = PosInf"

fun js_div :: "number \<Rightarrow> number \<Rightarrow> number" where
  "js_div NaN _ = NaN"
| "js_div _ NaN = NaN"
| "js_div (Fin a) (Fin b) =
     (if b = 0 then (if a = 0 then NaN else signed_inf a) else to_double (a / b))"
| "js_div (Fin a) _ = Fin 0"
| "js_div PosInf (Fin b) = signed_inf b"
| "js_div NegInf (Fin b) = js_neg (signed_inf b)"
| "js_div _ _ = NaN"

text \<open>
  \<^verbatim>\<open>Math.pow\<close>, case by case as ECMAScript's \<^verbatim>\<open>Number::exponentiate\<close> lists them
  (without the cases of negative zero).
\<close>

definition is_integral :: "real \<Rightarrow> bool" where
  "is_integral e = (of_int \<lfloor>e\<rfloor> = e)"

definition is_odd_integer :: "real \<Rightarrow> bool" where
  "is_odd_integer e = (is_integral e \<and> odd \<lfloor>e\<rfloor>)"

definition real_power :: "real \<Rightarrow> real \<Rightarrow> real" where
  "real_power b e =
     (if is_integral e
      then (if 0 \<le> e then b ^ nat \<lfloor>e\<rfloor> else 1 / b ^ nat (- \<lfloor>e\<rfloor>))
      else b powr e)"

fun js_pow :: "number \<Rightarrow> number \<Rightarrow> number" where
  "js_pow _ NaN = NaN"
| "js_pow base (Fin e) =
     (if e = 0 then Fin 1
      else case base of
        NaN \<Rightarrow> NaN
      | PosInf \<Rightarrow> (if 0 < e then PosInf else Fin 0)
      | NegInf \<Rightarrow> (if 0 < e then (if is_odd_integer e then NegInf else PosInf) else Fin 0)
      | Fin b \<Rightarrow>
          (if b = 0 then (if 0 < e then Fin 0 else PosInf)
           else if b < 0 \<and> \<not> is_integral e then NaN
           else to_double (real_power b e)))"
| "js_pow base PosInf =
     (case base of
        NaN \<Rightarrow> NaN
      | PosInf \<Rightarrow> PosInf
      | NegInf \<Rightarrow> PosInf
      | Fin b \<Rightarrow> (if 1 < \<bar>b\<bar> then PosInf else if \<bar>b\<bar> = 1 then NaN else Fin 0))"
| "js_pow base NegInf =
     (case base of
        NaN \<Rightarrow> NaN
      | PosInf \<Rightarrow> Fin 0
      | NegInf \<Rightarrow> Fin 0
      | Fin b \<Rightarrow> (if 1 < \<bar>b\<bar> then Fin 0 else if \<bar>b\<bar> = 1 then NaN else PosInf))"

definition js_isNaN :: "number \<Rightarrow> bool" where
  "js_isNaN x = (x = NaN)"

definition number_isFinite :: "number \<Rightarrow> bool" where
  "number_isFinite x = (case x of Fin _ \<Rightarrow> True | _ \<Rightarrow> False)"


section \<open>Strings and the built-in conversions\<close>

text \<open>
  \<^verbatim>\<open>String.prototype.indexOf\<close>: the index of the first occurrence of the needle, or -1.
  The empty needle occurs at index 0.
\<close>

fun indexOf_from :: "string \<Rightarrow> string \<Rightarrow> int \<Rightarrow> int" where
  "indexOf_from [] needle i = (if needle = [] then i else - 1)"
| "indexOf_from (h # hs) needle i =
     (if prefix needle (h # hs) then i else indexOf_from hs needle (i + 1))"

definition indexOf :: "string \<Rightarrow> string \<Rightarrow> int" where
  "indexOf hay needle = indexOf_from hay needle 0"

definition is_digit :: "char \<Rightarrow> bool" where
  "is_digit c = (c \<in> set ''0123456789'')"

fun digits_value :: "string \<Rightarrow> nat \<Rightarrow> nat" where
  "digits_value [] acc = acc"
| "digits_value (c # cs) acc = digits_value cs (10 * acc + (of_char c - 48))"

text \<open>An optional sign in front of a numeric string: is it a minus, and what follows.\<close>

fun strip_sign :: "string \<Rightarrow> bool \<times> string" where
  "strip_sign [] = (False, [])"
| "strip_sign (c # cs) =
     (if c = CHR ''-'' then (True, cs) else if c = CHR ''+'' then (False, cs) else (False, c # cs))"

definition signed :: "bool \<Rightarrow> number \<Rightarrow> number" where
  "signed neg x = (if neg then js_neg x else x)"

text \<open>
  The conversions below are exact on the strings \<open>read\<close> can produce, which hold only
  digits, the decimal point and the characters of \<^verbatim>\<open>+-*/()^\<close>.  Leading white space,
  exponents, hexadecimal literals and the word Infinity need characters that \<open>read\<close>
  rejects; on such strings the model answers NaN.

  \<^verbatim>\<open>parseInt(s, 10)\<close>: an optional sign and the longest run of digits; NaN without a digit.
\<close>

definition parseInt :: "string \<Rightarrow> number" where
  "parseInt s =
     (let (neg, r) = strip_sign s; ds = takeWhile is_digit r
      in if ds = [] then NaN else signed neg (to_double (real (digits_value ds 0))))"

text \<open>The value of the decimal literal with integer digits \<open>ip\<close> and fraction digits \<open>fp\<close>.\<close>

definition decimal_value :: "string \<Rightarrow> string \<Rightarrow> real" where
  "decimal_value ip fp = real (digits_value ip 0) + real (digits_value fp 0) / 10 ^ length fp"

text \<open>
  \<^verbatim>\<open>parseFloat(s)\<close>: the longest prefix that is a decimal literal (sign, digits, at most
  one point, digits); NaN when that prefix has no digit.
\<close>

definition parseFloat :: "string \<Rightarrow> number" where
  "parseFloat s =
     (let (neg, r) = strip_sign s;
          ip = takeWhile is_digit r;
          after = dropWhile is_digit r;
          fp = (case after of [] \<Rightarrow> [] | c # t \<Rightarrow> if c = CHR ''.'' then takeWhile is_digit t else [])
      in if ip = [] \<and> fp = [] then NaN else signed neg (to_double (decimal_value ip fp)))"

text \<open>
  ToNumber on a string: the empty string is 0; otherwise the whole string must be a
  decimal literal, else NaN.
\<close>

definition StringToNumber :: "string \<Rightarrow> number" where
  "StringToNumber s =
     (if s = [] then Fin 0
      else
        let (neg, r) = strip_sign s;
            ip = takeWhile is_digit r;
            after = dropWhile is_digit r;
            fp = (case after of [] \<Rightarrow> [] | c # t \<Rightarrow> if c = CHR ''.'' then takeWhile is_digit t else []);
            remainder = (case after of [] \<Rightarrow> [] | c # t \<Rightarrow> if c = CHR ''.'' then dropWhile is_digit t else after)
        in if (ip = [] \<and> fp = []) \<or> remainder \<noteq> [] then NaN
           else signed neg (to_double (decimal_value ip fp)))"

fun ToNumber :: "jsval \<Rightarrow> number" where
  "ToNumber (JString s) = StringToNumber s"
| "ToNumber (JNumber n) = n"
| "ToNumber JUndefined = NaN"

section \<open>The Calculator object\<close>

text \<open>
  The only data field of \<^verbatim>\<open>Calculator\<close> is \<^verbatim>\<open>tokens\<close> (line 14), an array of strings
  that lives as long as the process.  Every method that touches it takes the array and
  returns the array it leaves behind.
\<close>

type_synonym tokens = "string list"

text \<open>\<^verbatim>\<open>isNumber\<close>, line 23, applied to a token.\<close>

definition isNumber :: "string \<Rightarrow> bool" where
  "isNumber input = (\<not> js_isNaN (parseFloat input) \<and> number_isFinite (StringToNumber input))"

text \<open>\<^verbatim>\<open>isInteger\<close>, line 33.\<close>

definition isInteger :: "string \<Rightarrow> bool" where
  "isInteger input = (\<not> js_isNaN (parseInt input))"

subsection \<open>The tokenizer \<^verbatim>\<open>read\<close>, lines 145-185\<close>

definition operators :: string where
  "operators = ''+-*/()^''"

definition unidentified :: exception where
  "unidentified = ExpressionFormatException ''Your expression contains unidentified character(s).''"

text \<open>\<^verbatim>\<open>if (token !== '') this.tokens.push(token)\<close>, lines 161-164, 169-172 and 182-184.\<close>

definition push_token :: "string \<Rightarrow> tokens \<Rightarrow> tokens" where
  "push_token token tokens = (if token \<noteq> [] then tokens @ [token] else tokens)"

text \<open>
  The loop of lines 150-180 over the characters that are left, with the local \<^verbatim>\<open>token\<close>
  and the array \<^verbatim>\<open>this.tokens\<close>.  The \<^verbatim>\<open>throw\<close> of line 177 leaves the loop with the
  array as it is at that moment.
\<close>

fun read_loop :: "string \<Rightarrow> string \<Rightarrow> tokens \<Rightarrow> (exception + unit) \<times> tokens" where
  "read_loop [] token tokens = (Inr (), push_token token tokens)"
| "read_loop (c # cs) token tokens =
     (if c = CHR ''.'' then
        (if indexOf token ''.'' = - 1 then read_loop cs (token @ ''.'') tokens
         else read_loop cs token tokens)
      else if isInteger [c] then
        (if token = ''-'' \<and> (length tokens = 0 \<or> indexOf operators (last tokens) \<noteq> - 1)
         then read_loop cs (token @ [c]) tokens
         else if indexOf operators token = - 1 then read_loop cs (token @ [c]) tokens
         else read_loop cs [c] (push_token token tokens))
      else if indexOf operators [c] \<noteq> - 1 then read_loop cs [c] (push_token token tokens)
      else (Inl unidentified, tokens))"

definition read :: "string \<Rightarrow> tokens \<Rightarrow> (exception + unit) \<times> tokens" where
  "read input tokens = read_loop input [] tokens"

subsection \<open>The converter \<^verbatim>\<open>shuntingYard\<close>, lines 42-96\<close>

definition precedence :: "string \<rightharpoonup> nat" where
  "precedence = [''+'' \<mapsto> 2, ''-'' \<mapsto> 2, ''*'' \<mapsto> 3, ''/'' \<mapsto> 3, ''^'' \<mapsto> 4]"

definition associativity :: "string \<rightharpoonup> string" where
  "associativity =
     [''+'' \<mapsto> ''left'', ''-'' \<mapsto> ''left'', ''*'' \<mapsto> ''left'', ''/'' \<mapsto> ''left'', ''^'' \<mapsto> ''right'']"

text \<open>
  \<^verbatim>\<open><=\<close> and \<^verbatim>\<open><\<close> on two table lookups: a key that is missing gives \<^verbatim>\<open>undefined\<close>, and
  a comparison with \<^verbatim>\<open>undefined\<close> is false.
\<close>

fun js_le :: "nat option \<Rightarrow> nat option \<Rightarrow> bool" where
  "js_le (Some a) (Some b) = (a \<le> b)"
| "js_le _ _ = False"

fun js_lt :: "nat option \<Rightarrow> nat option \<Rightarrow> bool" where
  "js_lt (Some a) (Some b) = (a < b)"
| "js_lt _ _ = False"

text \<open>The test \<^verbatim>\<open>/^[-+*\/\^]$/g.test(token)\<close> of line 58.\<close>

definition isOperator :: "string \<Rightarrow> bool" where
  "isOperator token = (token \<in> {''-'', ''+'', ''*'', ''/'', ''^''})"

text \<open>
  The operator stack is a list with its top in front (the source pushes and pops at the
  end of an array).  Lines 60-70: the loop walks down from the top, and every operator
  it moves is the top at that moment.
\<close>

fun pop_operators :: "string \<Rightarrow> string list \<Rightarrow> string list \<Rightarrow> string list \<times> string list" where
  "pop_operators token outputQueue [] = (outputQueue, [])"
| "pop_operators token outputQueue (o2 # operatorStack) =
     (if (associativity token = Some ''left'' \<and> js_le (precedence token) (precedence o2))
         \<or> (associativity token = Some ''right'' \<and> js_lt (precedence token) (precedence o2))
      then pop_operators token (outputQueue @ [o2]) operatorStack
      else (outputQueue, o2 # operatorStack))"

text \<open>Lines 79-81: move operators to the output until a left parenthesis is on top.\<close>

fun pop_to_paren :: "string list \<Rightarrow> string list \<Rightarrow> string list \<times> string list" where
  "pop_to_paren outputQueue [] = (outputQueue, [])"
| "pop_to_paren outputQueue (o1 # operatorStack) =
     (if o1 \<noteq> ''('' then pop_to_paren (outputQueue @ [o1]) operatorStack
      else (outputQueue, o1 # operatorStack))"

text \<open>
  Lines 51-86: the tokens are shifted off \<^verbatim>\<open>this.tokens\<close> one by one.  Line 84 pops
  once more; on an empty array that does nothing.
\<close>

fun shunting_loop :: "tokens \<Rightarrow> string list \<Rightarrow> string list \<Rightarrow> string list \<times> string list" where
  "shunting_loop [] outputQueue operatorStack = (outputQueue, operatorStack)"
| "shunting_loop (token # tokens) outputQueue operatorStack =
     (if isNumber token then shunting_loop tokens (outputQueue @ [token]) operatorStack
      else if isOperator token then
        (case pop_operators token outputQueue operatorStack of
           (outputQueue', operatorStack') \<Rightarrow>
             shunting_loop tokens outputQueue' (token # operatorStack'))
      else if token = ''('' then shunting_loop tokens outputQueue (token # operatorStack)
      else if token = '')'' then
        (case pop_to_paren outputQueue operatorStack of
           (outputQueue', operatorStack') \<Rightarrow>
             shunting_loop tokens outputQueue' (drop 1 operatorStack'))
      else shunting_loop tokens outputQueue operatorStack)"

text \<open>
  \<^verbatim>\<open>shuntingYard\<close> returns the output queue after the drain of lines 89-93, and leaves
  \<^verbatim>\<open>this.tokens\<close> empty.
\<close>

definition shuntingYard :: "tokens \<Rightarrow> string list \<times> tokens" where
  "shuntingYard tokens =
     (case shunting_loop tokens [] [] of
        (outputQueue, operatorStack) \<Rightarrow> (outputQueue @ operatorStack, []))"

subsection \<open>The evaluator \<^verbatim>\<open>evaluateRPN\<close>, lines 104-138\<close>

text \<open>The value stack, top in front.  \<^verbatim>\<open>pop\<close> on an empty array gives \<^verbatim>\<open>undefined\<close>.\<close>

fun pop :: "jsval list \<Rightarrow> jsval \<times> jsval list" where
  "pop [] = (JUndefined, [])"
| "pop (v # stack) = (v, stack)"

text \<open>The \<^verbatim>\<open>switch\<close> of lines 117-133; a token that matches no case pushes nothing.\<close>

definition apply_operator :: "string \<Rightarrow> jsval \<Rightarrow> jsval \<Rightarrow> jsval list \<Rightarrow> jsval list" where
  "apply_operator token first second stack =
     (if token = ''*'' then JNumber (js_mul (ToNumber first) (ToNumber second)) # stack
      else if token = ''/'' then JNumber (js_div (ToNumber first) (ToNumber second)) # stack
      else if token = ''-'' then JNumber (js_sub (ToNumber first) (ToNumber second)) # stack
      else if token = ''+'' then
        JNumber (js_add (js_mul (ToNumber first) (Fin 1)) (js_mul (ToNumber second) (Fin 1))) # stack
      else if token = ''^'' then JNumber (js_pow (ToNumber first) (ToNumber second)) # stack
      else stack)"

fun rpn_loop :: "string list \<Rightarrow> jsval list \<Rightarrow> jsval list" where
  "rpn_loop [] stack = stack"
| "rpn_loop (token # input) stack =
     (if isNumber token then rpn_loop input (JString token # stack)
      else
        (case pop stack of (second, stack1) \<Rightarrow>
         case pop stack1 of (first, stack2) \<Rightarrow>
           rpn_loop input (apply_operator token first second stack2)))"

definition evaluateRPN :: "string list \<Rightarrow> jsval" where
  "evaluateRPN input = fst (pop (rpn_loop input []))"

subsection \<open>The pipeline of lines 213-215\<close>

text \<open>
  The body of the \<^verbatim>\<open>try\<close> in the message handler, on the expression with its blanks
  removed: \<^verbatim>\<open>read\<close>, \<^verbatim>\<open>shuntingYard\<close>, \<^verbatim>\<open>evaluateRPN\<close>.  An exception of \<^verbatim>\<open>read\<close> skips the
  other two calls.  The second component is \<^verbatim>\<open>Calculator.tokens\<close> afterwards.
\<close>

definition evaluateExpression :: "string \<Rightarrow> tokens \<Rightarrow> (exception + jsval) \<times> tokens" where
  "evaluateExpression expression tokens =
     (case read expression tokens of
        (Inl e, tokens') \<Rightarrow> (Inl e, tokens')
      | (Inr _, tokens') \<Rightarrow>
          (case shuntingYard tokens' of
             (RPN, tokens'') \<Rightarrow> (Inr (evaluateRPN RPN), tokens'')))"


section \<open>The converter's rule for an operator token, in the specification's words\<close>

text \<open>
  The specification gives every operator a precedence (\<^verbatim>\<open>+\<close> and \<^verbatim>\<open>-\<close> 2, \<^verbatim>\<open>*\<close> and \<^verbatim>\<open>/\<close> 3,
  \<^verbatim>\<open>^\<close> 4) and an associativity (left, except \<^verbatim>\<open>^\<close>), and none to a parenthesis, which
  is a barrier on the operator stack.  An operator \<open>op\<close> pops the top \<open>o2\<close> of the stack
  when \<open>op\<close> is left-associative and its precedence is at most that of \<open>o2\<close>, or \<open>op\<close> is
  right-associative and its precedence is below that of \<open>o2\<close>.
\<close>

definition spec_precedence :: "string \<Rightarrow> nat" where
  "spec_precedence op =
     (if op = ''+'' \<or> op = ''-'' then 2 else if op = ''*'' \<or> op = ''/'' then 3 else 4)"

definition spec_left_associative :: "string \<Rightarrow> bool" where
  "spec_left_associative op = (op \<noteq> ''^'')"

definition spec_pops :: "string \<Rightarrow> string \<Rightarrow> bool" where
  "spec_pops op o2 =
     (isOperator o2 \<and>
      ((spec_left_associative op \<and> spec_precedence op \<le> spec_precedence o2)
       \<or> (\<not> spec_left_associative op \<and> spec_precedence op < spec_precedence o2)))"


section \<open>Classes of input strings\<close>

text \<open>
  A character that one of the three tests in the loop of \<^verbatim>\<open>read\<close> accepts (lines 151, 155
  and 168); every other character reaches the \<^verbatim>\<open>throw\<close> of line 177.
\<close>

definition identified :: "char \<Rightarrow> bool" where
  "identified c = (c = CHR ''.'' \<or> isInteger [c] \<or> indexOf operators [c] \<noteq> - 1)"





section \<open>Facts used to run the definitions\<close>

lemma to_double_not_NaN: "to_double v \<noteq> NaN"
  by (simp add: to_double_def)

lemma signed_NaN_iff: "signed neg x = NaN \<longleftrightarrow> x = NaN"
  by (cases x) (simp_all add: signed_def)

lemma isInteger_single: "isInteger [c] = is_digit c"
  by (simp add: isInteger_def parseInt_def js_isNaN_def signed_NaN_iff to_double_not_NaN is_digit_def)

lemmas number_eval = isNumber_def parseFloat_def StringToNumber_def js_isNaN_def number_isFinite_def
  signed_def to_double_def decimal_value_def is_digit_def
lemmas yard_eval = shuntingYard_def isOperator_def precedence_def associativity_def
lemmas rpn_eval = evaluateRPN_def apply_operator_def js_sub_def real_power_def is_integral_def
lemmas pipeline_eval = evaluateExpression_def read_def isInteger_single indexOf_def operators_def
  push_token_def number_eval yard_eval rpn_eval

lemma isOperator_not_number: "isOperator token \<Longrightarrow> \<not> isNumber token"
  by (auto simp: isOperator_def isNumber_def parseFloat_def js_isNaN_def is_digit_def)

section \<open>The converter and an operator token\<close>

lemma precedence_None: "\<not> isOperator o2 \<Longrightarrow> precedence o2 = None"
  by (simp add: isOperator_def precedence_def)

lemma pop_condition_spec:
  assumes "isOperator op"
  shows "((associativity op = Some ''left'' \<and> js_le (precedence op) (precedence o2))
          \<or> (associativity op = Some ''right'' \<and> js_lt (precedence op) (precedence o2)))
         = spec_pops op o2"
proof (cases "isOperator o2")
  case False
  then show ?thesis
    by (simp add: precedence_None spec_pops_def)
next
  case True
  with assms show ?thesis
    by (auto simp: isOperator_def precedence_def associativity_def spec_pops_def
        spec_precedence_def spec_left_associative_def)
qed

lemma pop_operators_spec:
  "isOperator op \<Longrightarrow>
   pop_operators op outputQueue operatorStack =
     (outputQueue @ takeWhile (spec_pops op) operatorStack, dropWhile (spec_pops op) operatorStack)"
proof (induction operatorStack arbitrary: outputQueue)
  case Nil
  show ?case by simp
next
  case (Cons o2 operatorStack)
  show ?case
    using Cons.IH [OF Cons.prems] pop_condition_spec [OF Cons.prems, of o2]
    by (simp del: js_le.simps js_lt.simps)
qed

text \<open>
  C1.  On an operator token \<open>op\<close> the converter moves operators from the top of the stack
  to the output queue for as long as the top satisfies the specification's condition
  (left-associative and precedence at most the top's, or right-associative and precedence
  below the top's), and then pushes \<open>op\<close>.  With it the pipeline gives 14 for \<^verbatim>\<open>2+3*4\<close>,
  20 for \<^verbatim>\<open>(2+3)*4\<close> and 512 for \<^verbatim>\<open>2^3^2\<close>.
\<close>

theorem shuntingYard_operator_token:
  "(isOperator op \<longrightarrow>
      shunting_loop (op # tokens) outputQueue operatorStack =
        shunting_loop tokens (outputQueue @ takeWhile (spec_pops op) operatorStack)
          (op # dropWhile (spec_pops op) operatorStack))
   \<and> evaluateExpression ''2+3*4'' [] = (Inr (JNumber (Fin 14)), [])
   \<and> evaluateExpression ''(2+3)*4'' [] = (Inr (JNumber (Fin 20)), [])
   \<and> evaluateExpression ''2^3^2'' [] = (Inr (JNumber (Fin 512)), [])"
proof (intro conjI impI)
  assume op: "isOperator op"
  show "shunting_loop (op # tokens) outputQueue operatorStack =
        shunting_loop tokens (outputQueue @ takeWhile (spec_pops op) operatorStack)
          (op # dropWhile (spec_pops op) operatorStack)"
    by (simp add: op isOperator_not_number pop_operators_spec)
next
  show "evaluateExpression ''2+3*4'' [] = (Inr (JNumber (Fin 14)), [])"
    by (simp add: pipeline_eval)
next
  show "evaluateExpression ''(2+3)*4'' [] = (Inr (JNumber (Fin 20)), [])"
    by (simp add: pipeline_eval)
next
  show "evaluateExpression ''2^3^2'' [] = (Inr (JNumber (Fin 512)), [])"
    by (simp add: pipeline_eval)
qed

theorem shuntingYard_operator_token_witness:
  "isOperator ''+'' \<and>
   shunting_loop [''+''] [''2'', ''3''] [''*'', ''(''] = ([''2'', ''3'', ''*''], [''+'', ''(''])
   \<and> isOperator ''^'' \<and>
   shunting_loop [''^''] [''2'', ''3''] [''^'', ''+''] = ([''2'', ''3''], [''^'', ''^'', ''+''])"
  using shuntingYard_operator_token [of "''+''" "[]" "[''2'', ''3'']" "[''*'', ''('']"]
    shuntingYard_operator_token [of "''^''" "[]" "[''2'', ''3'']" "[''^'', ''+'']"]
  by (simp add: isOperator_def spec_pops_def spec_precedence_def spec_left_associative_def)


section \<open>The tokenizer and a minus sign\<close>

text \<open>
  C2.  The tokenizer run on \<^verbatim>\<open>(2+3)-4\<close>: the minus sign follows a closing parenthesis and
  the digit after it is appended to it, which gives the literal \<^verbatim>\<open>-4\<close> and no operator;
  the pipeline returns that literal.
\<close>

theorem read_minus_after_closing_paren:
  "read ''(2+3)-4'' [] = (Inr (), [''('', ''2'', ''+'', ''3'', '')'', ''-4''])
   \<and> evaluateExpression ''(2+3)-4'' [] = (Inr (JString ''-4''), [])"
  by (simp add: pipeline_eval)

lemma read_minus_examples:
  "evaluateExpression ''-5+3'' [] = (Inr (JNumber (Fin (- 2))), [])"
  "evaluateExpression ''5--3'' [] = (Inr (JNumber (Fin 8)), [])"
  by (simp_all add: pipeline_eval)

section \<open>The evaluator\<close>

lemma rpn_loop_append: "rpn_loop (xs @ ys) stack = rpn_loop ys (rpn_loop xs stack)"
  by (induction xs arbitrary: stack) (simp_all split: prod.splits)

lemma not_number_operators:
  "\<not> isNumber ''*''" "\<not> isNumber ''/''" "\<not> isNumber ''-''" "\<not> isNumber ''+''" "\<not> isNumber ''^''"
  by (simp_all add: isOperator_not_number isOperator_def)

text \<open>
  C3.  When an operator is reached with \<open>second\<close> on top of the stack and \<open>first\<close> below it,
  the evaluator takes both off and pushes \<open>first OP second\<close>: the value pushed earlier is
  the left operand.  The pipeline gives 3 for \<^verbatim>\<open>8-3-2\<close>.
\<close>

theorem evaluateRPN_operand_order:
  "(rpn_loop pre [] = second # first # stack \<longrightarrow>
      rpn_loop (pre @ ''*'' # rest) [] =
        rpn_loop rest (JNumber (js_mul (ToNumber first) (ToNumber second)) # stack)
      \<and> rpn_loop (pre @ ''/'' # rest) [] =
        rpn_loop rest (JNumber (js_div (ToNumber first) (ToNumber second)) # stack)
      \<and> rpn_loop (pre @ ''-'' # rest) [] =
        rpn_loop rest (JNumber (js_sub (ToNumber first) (ToNumber second)) # stack)
      \<and> rpn_loop (pre @ ''+'' # rest) [] =
        rpn_loop rest
          (JNumber (js_add (js_mul (ToNumber first) (Fin 1)) (js_mul (ToNumber second) (Fin 1))) # stack)
      \<and> rpn_loop (pre @ ''^'' # rest) [] =
        rpn_loop rest (JNumber (js_pow (ToNumber first) (ToNumber second)) # stack))
   \<and> evaluateExpression ''8-3-2'' [] = (Inr (JNumber (Fin 3)), [])"
proof (intro conjI impI)
  show "evaluateExpression ''8-3-2'' [] = (Inr (JNumber (Fin 3)), [])"
    by (simp add: pipeline_eval)
qed (simp_all add: rpn_loop_append not_number_operators apply_operator_def)

theorem evaluateRPN_operand_order_witness:
  "rpn_loop [''8'', ''2''] [] = [JString ''2'', JString ''8'']
   \<and> rpn_loop [''8'', ''2'', ''-''] [] = [JNumber (Fin 6)]
   \<and> rpn_loop [''8'', ''2'', ''/''] [] = [JNumber (Fin 4)]
   \<and> rpn_loop [''8'', ''2'', ''^''] [] = [JNumber (Fin 64)]"
proof -
  have pre: "rpn_loop [''8'', ''2''] [] = [JString ''2'', JString ''8'']"
    by (simp add: number_eval)
  have first: "ToNumber (JString ''8'') = Fin 8" and second: "ToNumber (JString ''2'') = Fin 2"
    by (simp_all add: number_eval)
  from evaluateRPN_operand_order [of "[''8'', ''2'']" "JString ''2''" "JString ''8''" "[]" "[]"] pre
  show ?thesis
    unfolding first second
    by (simp add: to_double_def js_sub_def real_power_def is_integral_def)
qed

text \<open>
  C4.  An operator reached with fewer than two values on the stack raises nothing: each
  missing operand is \<^verbatim>\<open>undefined\<close>, the result of the operator on it is pushed (NaN for
  \<^verbatim>\<open>+\<close>, \<^verbatim>\<open>-\<close>, \<^verbatim>\<open>*\<close> and \<^verbatim>\<open>/\<close>; \<^verbatim>\<open>Math.pow\<close> of NaN and the right operand for \<^verbatim>\<open>^\<close>), and the
  evaluation goes on.
\<close>

theorem evaluateRPN_underflow_no_error:
  assumes "length (rpn_loop pre []) < 2"
  shows "(op \<in> {''+'', ''-'', ''*'', ''/''} \<longrightarrow>
            rpn_loop (pre @ op # rest) [] = rpn_loop rest [JNumber NaN])
         \<and> rpn_loop (pre @ ''^'' # rest) [] =
            rpn_loop rest [JNumber (js_pow NaN (ToNumber (fst (pop (rpn_loop pre [])))))]"
proof -
  from assms consider "rpn_loop pre [] = []" | v where "rpn_loop pre [] = [v]"
    by (cases "rpn_loop pre []" rule: list.exhaust; cases "tl (rpn_loop pre [])") auto
  then show ?thesis
  proof cases
    case 1
    then show ?thesis
      by (auto simp: rpn_loop_append not_number_operators apply_operator_def js_sub_def)
  next
    case 2
    then show ?thesis
      by (auto simp: rpn_loop_append not_number_operators apply_operator_def js_sub_def)
  qed
qed

theorem evaluateRPN_underflow_no_error_witness:
  "length (rpn_loop [''2''] []) < 2 \<and> rpn_loop [''2'', ''+''] [] = [JNumber NaN]
   \<and> rpn_loop [''2'', ''^''] [] = [JNumber NaN] \<and> rpn_loop [''0'', ''^''] [] = [JNumber (Fin 1)]"
proof -
  have two: "rpn_loop [''2''] [] = [JString ''2'']" and zero: "rpn_loop [''0''] [] = [JString ''0'']"
    by (simp_all add: number_eval)
  from evaluateRPN_underflow_no_error [of "[''2'']" "''+''" "[]"]
    evaluateRPN_underflow_no_error [of "[''0'']" "''+''" "[]"] two zero
  show ?thesis
    by (simp add: StringToNumber_def signed_def to_double_def decimal_value_def is_digit_def)
qed

theorem evaluateRPN_underflow_counterexample:
  "evaluateExpression ''2+'' [] = (Inr (JNumber NaN), [])"
  by (simp add: pipeline_eval)

text \<open>
  C5.  After the last token the evaluator returns what is on top of the stack: the only
  value when one is left, the value pushed last when several are left, \<^verbatim>\<open>undefined\<close>
  when none is left.  It raises nothing.
\<close>

theorem evaluateRPN_returns_top:
  "(rpn_loop input [] = [] \<longrightarrow> evaluateRPN input = JUndefined)
   \<and> (rpn_loop input [] = v # rest \<longrightarrow> evaluateRPN input = v)"
  by (simp add: evaluateRPN_def)

theorem evaluateRPN_returns_top_witness:
  "rpn_loop [] [] = [] \<and> evaluateRPN [] = JUndefined
   \<and> rpn_loop [''7''] [] = [JString ''7''] \<and> evaluateRPN [''7''] = JString ''7''
   \<and> rpn_loop [''2'', ''3''] [] = [JString ''3'', JString ''2''] \<and> evaluateRPN [''2'', ''3''] = JString ''3''"
proof -
  have a: "rpn_loop [] [] = []" and b: "rpn_loop [''7''] [] = [JString ''7'']"
    and c: "rpn_loop [''2'', ''3''] [] = [JString ''3'', JString ''2'']"
    by (simp_all add: number_eval)
  from evaluateRPN_returns_top [of "[]"]
    evaluateRPN_returns_top [of "[''7'']" "JString ''7''" "[]"]
    evaluateRPN_returns_top [of "[''2'', ''3'']" "JString ''3''" "[JString ''2'']"] a b c
  show ?thesis by simp
qed

theorem evaluateRPN_leftover_counterexample:
  "evaluateExpression ''(2)(3)'' [] = (Inr (JString ''3''), [])
   \<and> evaluateExpression [] [] = (Inr JUndefined, [])"
  by (simp add: pipeline_eval)

text \<open>
  C10.  A token of the postfix sequence that is neither a number nor one of the five
  operators takes two values off the stack and pushes nothing, without an error.  A left
  parenthesis that was never closed is such a token: the final drain of the converter
  copies it into the output queue.
\<close>

theorem evaluateRPN_unknown_token:
  "(\<not> isNumber token \<and> token \<notin> {''*'', ''/'', ''-'', ''+'', ''^''} \<longrightarrow>
      rpn_loop (pre @ token # rest) [] = rpn_loop rest (drop 2 (rpn_loop pre [])))
   \<and> fst (shuntingYard [''('', ''2'', ''+'', ''3'']) = [''2'', ''3'', ''+'', ''('']
   \<and> evaluateRPN [''2'', ''3'', ''+'', ''(''] = JUndefined"
proof (intro conjI impI)
  assume t: "\<not> isNumber token \<and> token \<notin> {''*'', ''/'', ''-'', ''+'', ''^''}"
  have "apply_operator token first second stack = stack" for first second stack
    using t by (simp add: apply_operator_def)
  moreover have "snd (pop (snd (pop stack))) = drop 2 stack" for stack
    by (cases stack rule: pop.cases; cases "tl stack" rule: pop.cases) auto
  ultimately show "rpn_loop (pre @ token # rest) [] = rpn_loop rest (drop 2 (rpn_loop pre []))"
    using t by (simp add: rpn_loop_append split: prod.splits) (metis snd_conv)
next
  show "fst (shuntingYard [''('', ''2'', ''+'', ''3'']) = [''2'', ''3'', ''+'', ''('']"
    by (simp add: number_eval yard_eval)
next
  show "evaluateRPN [''2'', ''3'', ''+'', ''(''] = JUndefined"
    by (simp add: number_eval rpn_eval)
qed

theorem evaluateRPN_unknown_token_witness:
  "\<not> isNumber ''('' \<and> ''('' \<notin> {''*'', ''/'', ''-'', ''+'', ''^''}
   \<and> rpn_loop [''1'', ''2'', ''3'', ''(''] [] = [JString ''1'']"
proof -
  have n: "\<not> isNumber ''(''" and p: "rpn_loop [''1'', ''2'', ''3''] [] = [JString ''3'', JString ''2'', JString ''1'']"
    by (simp_all add: number_eval)
  from evaluateRPN_unknown_token [of "''(''" "[''1'', ''2'', ''3'']" "[]"] n p
  show ?thesis by simp
qed


section \<open>The tokenizer and the token buffer\<close>





lemma read_loop_identified:
  "\<forall>c\<in>set input. identified c \<Longrightarrow> fst (read_loop input token tokens) = Inr ()"
  by (induction input arbitrary: token tokens) (auto simp: identified_def)

lemma read_loop_unidentified:
  "\<not> (\<forall>c\<in>set input. identified c) \<Longrightarrow> fst (read_loop input token tokens) = Inl unidentified"
  by (induction input arbitrary: token tokens) (auto simp: identified_def)

lemma shuntingYard_empties: "snd (shuntingYard tokens) = []"
  by (simp add: shuntingYard_def split: prod.splits)

lemma evaluateExpression_identified:
  assumes "\<forall>c\<in>set expression. identified c"
  shows "evaluateExpression expression tokens =
         (Inr (evaluateRPN (fst (shuntingYard (snd (read expression tokens))))), [])"
proof -
  obtain r t where rt: "read expression tokens = (r, t)"
    by (cases "read expression tokens")
  with read_loop_identified [OF assms, of "[]" tokens] have "r = Inr ()"
    by (simp add: read_def)
  with rt shuntingYard_empties [of t] show ?thesis
    by (auto simp: evaluateExpression_def split: prod.splits)
qed

lemma evaluateExpression_unidentified:
  assumes "\<not> (\<forall>c\<in>set expression. identified c)"
  shows "fst (evaluateExpression expression tokens) = Inl unidentified"
proof -
  obtain r t where rt: "read expression tokens = (r, t)"
    by (cases "read expression tokens")
  with read_loop_unidentified [OF assms, of "[]" tokens] have "r = Inl unidentified"
    by (simp add: read_def)
  with rt show ?thesis
    by (simp add: evaluateExpression_def)
qed

lemma evaluateExpression_twice_from_empty:
  "fst (evaluateExpression s (snd (evaluateExpression s []))) = fst (evaluateExpression s [])"
proof (cases "\<forall>c\<in>set s. identified c")
  case True
  then show ?thesis by (simp add: evaluateExpression_identified)
next
  case False
  then show ?thesis by (simp add: evaluateExpression_unidentified)
qed

text \<open>
  C6.  The pipeline run on \<^verbatim>\<open>2+a\<close> with an empty token buffer: \<^verbatim>\<open>read\<close> throws at the
  letter, and the token it had pushed before stays in \<^verbatim>\<open>Calculator.tokens\<close>.
\<close>

theorem read_unidentified_keeps_tokens:
  "evaluateExpression ''2+a'' [] = (Inl unidentified, [''2''])"
  by (simp add: pipeline_eval)

text \<open>
  C7.  Three calls in a row, each on the token buffer the call before left: \<^verbatim>\<open>3*x\<close>
  throws and leaves a token behind, the first \<^verbatim>\<open>-5\<close> is then read as a subtraction from
  that token, and the second \<^verbatim>\<open>-5\<close> gives the literal.
\<close>

theorem evaluateExpression_twice_differs:
  "evaluateExpression ''3*x'' [] = (Inl unidentified, [''3''])
   \<and> evaluateExpression ''-5'' [''3''] = (Inr (JNumber (Fin (- 2))), [])
   \<and> evaluateExpression ''-5'' [] = (Inr (JString ''-5''), [])"
  by (simp add: pipeline_eval)

section \<open>Unbalanced parentheses\<close>

lemma pop_to_paren_unmatched:
  "''('' \<notin> set operatorStack \<Longrightarrow> pop_to_paren outputQueue operatorStack = (outputQueue @ operatorStack, [])"
  by (induction operatorStack arbitrary: outputQueue) auto

lemma closing_paren_token: "\<not> isNumber '')''" "\<not> isOperator '')''"
  by (simp_all add: number_eval isOperator_def)

text \<open>
  C9.  Whatever the parentheses of the input, nothing is raised but the exception of the
  tokenizer.  An input with an unidentified character gives that exception.  On any
  other input the pipeline returns the value of \<^verbatim>\<open>evaluateRPN\<close> and leaves the token buffer
  empty; in the converter a closing parenthesis with no opening one on the stack moves
  the whole stack to the output queue.
\<close>

theorem pipeline_raises_nothing_else:
  "(list_all identified expression \<longrightarrow>
      evaluateExpression expression tokens =
        (Inr (evaluateRPN (fst (shuntingYard (snd (read expression tokens))))), []))
   \<and> (\<not> list_all identified expression \<longrightarrow>
      fst (evaluateExpression expression tokens) = Inl unidentified)
   \<and> (''('' \<notin> set operatorStack \<longrightarrow>
      shunting_loop ('')'' # rest) outputQueue operatorStack =
        shunting_loop rest (outputQueue @ operatorStack) [])"
  by (simp add: list_all_iff evaluateExpression_identified evaluateExpression_unidentified
      pop_to_paren_unmatched closing_paren_token)

theorem pipeline_raises_nothing_else_witness:
  "list_all identified ''2+3)''
   \<and> evaluateExpression ''2+3)'' [] = (Inr (JNumber (Fin 5)), [])
   \<and> \<not> list_all identified ''(2+a''
   \<and> fst (evaluateExpression ''(2+a'' []) = Inl unidentified
   \<and> ''('' \<notin> set [''+'']
   \<and> shunting_loop ['')''] [''2'', ''3''] [''+''] = ([''2'', ''3'', ''+''], [])"
proof -
  have ok: "list_all identified ''2+3)''" and bad: "\<not> list_all identified ''(2+a''"
    by (simp_all add: identified_def isInteger_single is_digit_def indexOf_def operators_def)
  have run: "evaluateRPN (fst (shuntingYard (snd (read ''2+3)'' [])))) = JNumber (Fin 5)"
    by (simp add: pipeline_eval)
  from pipeline_raises_nothing_else [of "''2+3)''" "[]" "[''+'']" "[]" "[''2'', ''3'']"]
    pipeline_raises_nothing_else [of "''(2+a''" "[]" "[''+'']" "[]" "[''2'', ''3'']"]
    ok bad run
  show ?thesis by simp
qed

theorem pipeline_unbalanced_counterexample:
  "evaluateExpression ''(2+3'' [] = (Inr JUndefined, [])"
  by (simp add: pipeline_eval)


section \<open>A single numeric literal\<close>

























end
